theory Spec2Isabelle
  imports Complex_Main "HOL-Library.While_Combinator"
begin

section \<open>Numbers\<close>

text \<open>
  The program keeps lengths and positions as Python \<^verbatim>\<open>Decimal\<close> values, Python
  integers or floats converted to \<^verbatim>\<open>Decimal\<close>. They are modelled as exact
  rationals; the 28 significant digits of the decimal context are not modelled, so every
  statement below is about values that the context represents exactly. Positions of router
  passes are Python integers and are modelled as \<^typ>\<open>int\<close>.
\<close>

text \<open>\<^verbatim>\<open>int(x)\<close> on a Decimal: truncation toward zero.\<close>

definition py_int :: "rat \<Rightarrow> int" where
  "py_int x = (if 0 \<le> x then \<lfloor>x\<rfloor> else \<lceil>x\<rceil>)"

text \<open>
  \<^verbatim>\<open>a // b\<close> on Decimals: the integer part of the quotient, truncated toward zero.
  The source only divides by the literals 2, 3 and 5.
\<close>

definition dec_floordiv :: "rat \<Rightarrow> rat \<Rightarrow> rat" where
  "dec_floordiv a b = of_int (py_int (a / b))"

text \<open>
  \<^verbatim>\<open>Decimal.to_integral_value(rounding=ROUND_HALF_DOWN)\<close>: the nearest integer,
  a tie going toward zero.
\<close>

definition round_half_down :: "rat \<Rightarrow> int" where
  "round_half_down x =
     (let f = \<lfloor>x\<rfloor>; d = x - of_int f
      in if d < 1 / 2 then f
         else if 1 / 2 < d then f + 1
         else if 0 \<le> x then f else f + 1)"

text \<open>
  \<^verbatim>\<open>Decimal.quantize(D('0.0001'))\<close> under the default context: four decimal
  places, rounding half to even.
\<close>

definition round_half_even :: "rat \<Rightarrow> int" where
  "round_half_even x =
     (let f = \<lfloor>x\<rfloor>; d = x - of_int f
      in if d < 1 / 2 then f
         else if 1 / 2 < d then f + 1
         else if even f then f else f + 1)"

definition quantize4 :: "rat \<Rightarrow> rat" where
  "quantize4 x = of_int (round_half_even (x * 10000)) / 10000"

section \<open>Errors\<close>

datatype error =
    Router_Exception   \<comment> \<open>the program's own exception class\<close>
  | Decimal_Error      \<comment> \<open>an exception of the decimal module (division by zero, invalid literal)\<close>
  | Index_Error        \<comment> \<open>a list read out of range\<close>
  | Type_Error         \<comment> \<open>an operation on a value of the wrong Python type\<close>
  | EOF_Error          \<comment> \<open>the unpickler ran out of input\<close>

section \<open>Units\<close>

text \<open>
  The module \<^verbatim>\<open>utils\<close> is not part of the sources at hand. The members of
  \<^verbatim>\<open>utils.Units\<close> that the router bit reads are fields of this record: the
  two parsers return \<open>None\<close> where the Python raises.
\<close>

record units =
  metric :: bool
  mm_per_inch :: rat
  num_increments :: rat
  string_to_float :: "string \<Rightarrow> rat option"
  string_to_increments :: "string \<Rightarrow> bool \<Rightarrow> rat option"

section \<open>Router bit\<close>

record router_bit =
  bit_units :: units
  width :: rat
  depth :: rat
  angle :: rat
  bit_gentle :: rat
  midline :: rat
  depth_0 :: rat
  width_f :: rat
  overhang :: rat
  gap :: rat

text \<open>
  \<^verbatim>\<open>Router_Bit.reinit\<close>. The parameter \<open>tan_deg\<close> stands for
  \<^verbatim>\<open>D(math.tan(math.radians(angle)))\<close>, the decimal value of a float. The result is
  the outcome (\<open>None\<close>: returned normally) and the object's state when the method is left.
  A tangent of zero makes the division raise after \<open>midline\<close> and \<open>gap\<close> have been
  assigned.
\<close>

definition reinit :: "(rat \<Rightarrow> rat) \<Rightarrow> router_bit \<Rightarrow> error option \<times> router_bit" where
  "reinit tan_deg b =
     (let b1 = b\<lparr>midline := width b, depth_0 := depth b, width_f := width b, gap := 0\<rparr>
      in if 0 < angle b1 then
           (let tn = tan_deg (angle b1);
                offset = depth b1 * tn;
                mf = width_f b1 - offset;
                m = of_int (round_half_down mf);
                b2 = b1\<lparr>gap := mf - m, midline := m\<rparr>
            in if tn = 0 then (Some Decimal_Error, b2)
               else (None, b2\<lparr>depth_0 := (width_f b2 - midline b2) / tn,
                               overhang := (width_f b2 - midline b2) / 2\<rparr>))
         else (None, b1\<lparr>overhang := (width_f b1 - midline b1) / 2\<rparr>))"

text \<open>\<^verbatim>\<open>Router_Bit.__init__\<close>.\<close>

definition Router_Bit_init ::
  "(rat \<Rightarrow> rat) \<Rightarrow> units \<Rightarrow> rat \<Rightarrow> rat \<Rightarrow> rat \<Rightarrow> rat \<Rightarrow> error option \<times> router_bit" where
  "Router_Bit_init tan_deg u w d a g =
     reinit tan_deg
       \<lparr>bit_units = u, width = w, depth = d, angle = a, bit_gentle = g,
        midline = 0, depth_0 = 0, width_f = w, overhang = (w - 0) / 2, gap = 0\<rparr>"

section \<open>Boards and cuts\<close>

record cut =
  xmin :: rat
  xmax :: rat
  passes :: "int list"

text \<open>\<^verbatim>\<open>Cut.__init__\<close>: a new cut has no passes; its precision is the constant 0.01.\<close>

definition Cut :: "rat \<Rightarrow> rat \<Rightarrow> cut" where
  "Cut l r = \<lparr>xmin = l, xmax = r, passes = []\<rparr>"

definition precision :: rat where
  "precision = 1 / 100"

text \<open>
  The fields of \<^verbatim>\<open>Board\<close> that the cut computations read or write. A cut list
  that is \<^verbatim>\<open>None\<close> in the Python is \<open>None\<close> here.
\<close>

record board =
  board_width :: rat
  height :: rat
  wood :: "string option"
  dheight :: rat
  active :: bool
  top_cuts :: "cut list option"
  bottom_cuts :: "cut list option"

text \<open>\<^verbatim>\<open>Cut.validate\<close>: \<open>Some e\<close> where the Python raises.\<close>

definition validate :: "router_bit \<Rightarrow> board \<Rightarrow> cut \<Rightarrow> error option" where
  "validate rb brd c =
     (if xmax c \<le> xmin c then Some Router_Exception
      else if xmin c < 0 then Some Router_Exception
      else if board_width brd < xmax c then Some Router_Exception
      else if precision < width_f rb - (xmax c - xmin c) \<and> 0 < xmin c \<and>
              xmax c < board_width brd then Some Router_Exception
      else None)"

text \<open>
  The pieces of \<^verbatim>\<open>Cut.make_router_passes\<close>, in the order of the source.
  \<open>rnd\<close> stands for \<^verbatim>\<open>utils.math_round\<close>, which is not part of the sources at
  hand.
\<close>

definition cutpass :: "router_bit \<Rightarrow> int" where
  "cutpass rb = py_int (width_f rb * bit_gentle rb / 100)"

definition halfwidth :: "router_bit \<Rightarrow> rat" where
  "halfwidth rb = width_f rb / 2"

definition seed_p0 :: "(rat \<Rightarrow> int) \<Rightarrow> router_bit \<Rightarrow> board \<Rightarrow> cut \<Rightarrow> rat" where
  "seed_p0 rnd rb brd c =
     (if xmax c = board_width brd \<and> halfwidth rb < xmax c - xmin c
      then xmax c + halfwidth rb - of_int (cutpass rb)
      else of_int (rnd (xmax c - halfwidth rb)))"

definition seed_p1 :: "(rat \<Rightarrow> int) \<Rightarrow> router_bit \<Rightarrow> cut \<Rightarrow> rat" where
  "seed_p1 rnd rb c = of_int (rnd (xmin c + halfwidth rb))"

definition first_passes :: "router_bit \<Rightarrow> board \<Rightarrow> cut \<Rightarrow> rat \<Rightarrow> int list" where
  "first_passes rb brd c p0 =
     (if xmax c \<le> board_width brd \<and>
         (xmin c - (p0 - halfwidth rb) < precision \<or> xmin c = 0)
      then [py_int p0] else [])"

text \<open>
  One turn of the \<^verbatim>\<open>while remainder > 0\<close> loop on the state
  \<open>(remainder, p1, passes)\<close>. The source's \<^verbatim>\<open>//\<close> is taken on Decimals
  (truncation); on Python integers it is the floor, which differs only for a negative
  remainder, and for a bit of positive width the loop is left in that very turn and the new
  \<open>p1\<close> is never read.
\<close>

definition pass_step ::
  "router_bit \<Rightarrow> board \<Rightarrow> cut \<Rightarrow> rat \<Rightarrow> rat \<times> rat \<times> int list \<Rightarrow> rat \<times> rat \<times> int list" where
  "pass_step rb brd c p0 s =
     (case s of (remainder0, p1, ps) \<Rightarrow>
        let remainder = p0 - p1;
            app = (p0 \<noteq> p1 \<and>
                   ((p1 + halfwidth rb) - xmax c < precision \<or> xmax c = board_width brd));
            p1a = (if app then of_int (py_int p1) else p1);
            ps' = (if app then ps @ [py_int p1] else ps);
            p1b = (if remainder \<le> dec_floordiv (width_f rb * 2) 3
                   then p0 - dec_floordiv remainder 2
                   else p1a + of_int (cutpass rb));
            remainder' = (if remainder < dec_floordiv (width_f rb * 4) 5 then 0 else remainder)
        in (remainder', p1b, ps'))"

definition pass_loop ::
  "router_bit \<Rightarrow> board \<Rightarrow> cut \<Rightarrow> rat \<Rightarrow> rat \<times> rat \<times> int list \<Rightarrow> (rat \<times> rat \<times> int list) option" where
  "pass_loop rb brd c p0 s = while_option (\<lambda>(remainder, p1, ps). 0 < remainder) (pass_step rb brd c p0) s"

text \<open>The test of the final error check on one pass.\<close>

definition pass_bad :: "router_bit \<Rightarrow> board \<Rightarrow> cut \<Rightarrow> int \<Rightarrow> bool" where
  "pass_bad rb brd c p =
     ((0 < xmin c \<and> precision < xmin c - (of_int p - halfwidth rb)) \<or>
      (xmax c < board_width brd \<and> precision < (of_int p + halfwidth rb) - xmax c))"

text \<open>
  \<^verbatim>\<open>Cut.make_router_passes\<close>. \<open>None\<close>: the loop never ends.
  \<open>Some (Inl e)\<close>: the method raises. \<open>Some (Inr c')\<close>: it returns, and \<open>c'\<close> is
  the cut with its new passes.
\<close>

definition make_router_passes ::
  "(rat \<Rightarrow> int) \<Rightarrow> router_bit \<Rightarrow> board \<Rightarrow> cut \<Rightarrow> (error + cut) option" where
  "make_router_passes rnd rb brd c =
     (case validate rb brd c of
        Some e \<Rightarrow> Some (Inl e)
      | None \<Rightarrow>
          let p0 = seed_p0 rnd rb brd c;
              p1 = seed_p1 rnd rb c
          in (case pass_loop rb brd c p0 (xmax c - xmin c, p1, first_passes rb brd c p0) of
                None \<Rightarrow> None
              | Some (remainder, p1', ps) \<Rightarrow>
                  if list_ex (pass_bad rb brd c) (sort ps) then Some (Inl Router_Exception)
                  else Some (Inr (c\<lparr>passes := sort ps\<rparr>))))"

text \<open>
  Modelled from the spec: \<^verbatim>\<open>utils.math_round\<close> is not part of the sources at hand;
  the spec calls it \<open>round\<close>. It is taken as rounding to the nearest integer, a tie going
  up. The general theorems below hold for every rounding function; the concrete
  evaluations only round integers, which every rounding leaves alone.
\<close>

definition math_round :: "rat \<Rightarrow> int" where
  "math_round x = \<lfloor>x + 1 / 2\<rfloor>"

section \<open>Edge cut propagation\<close>

text \<open>
  \<^verbatim>\<open>adjoining_cuts\<close>. Reading \<^verbatim>\<open>cuts[0]\<close> of an empty list raises. The
  three parts are the left edge cut, the cuts between consecutive input cuts and the right
  edge cut, appended in this order.
\<close>

definition adjoining_cuts :: "cut list \<Rightarrow> router_bit \<Rightarrow> board \<Rightarrow> error + cut list" where
  "adjoining_cuts cuts rb brd =
     (if cuts = [] then Inl Index_Error
      else
        let nc = length cuts;
            offset = width_f rb - midline rb;
            adj1 = (if 0 < xmin (cuts ! 0) then
                      (let left = 0;
                           right = xmin (cuts ! 0) + offset - dheight brd
                       in if dheight brd \<le> right - left then [Cut left (quantize4 right)] else [])
                    else []);
            adj2 = map (\<lambda>i. let left = xmax (cuts ! (i - 1)) - offset + dheight brd;
                                 right = xmin (cuts ! i) + offset - dheight brd
                             in Cut (max 0 left) (min (board_width brd) right)) [1..<nc];
            adj3 = (if xmax (last cuts) < board_width brd then
                      (let left = xmax (last cuts) - offset + dheight brd;
                           right = board_width brd
                       in if dheight brd \<le> right - left
                          then [Cut (max 0 left) (min (board_width brd) right)] else [])
                    else [])
        in Inr (adj1 @ adj2 @ adj3))"

section \<open>Board stack assembly\<close>

text \<open>
  Sequencing of computations that may raise or not return: \<open>None\<close> is a loop that never
  ends, \<open>Some (Inl e)\<close> an exception, \<open>Some (Inr x)\<close> a value.
\<close>

definition bind_res :: "(error + 'a) option \<Rightarrow> ('a \<Rightarrow> (error + 'b) option) \<Rightarrow> (error + 'b) option" where
  "bind_res m f = (case m of None \<Rightarrow> None | Some (Inl e) \<Rightarrow> Some (Inl e) | Some (Inr x) \<Rightarrow> f x)"

text \<open>
  The loop \<^verbatim>\<open>for c in cuts: c.make_router_passes(bit, self)\<close> of
  \<^verbatim>\<open>Board.set_bottom_cuts\<close> and \<^verbatim>\<open>Board.set_top_cuts\<close>: the cuts with their
  passes, or the first exception.
\<close>

fun set_cuts :: "(rat \<Rightarrow> int) \<Rightarrow> router_bit \<Rightarrow> board \<Rightarrow> cut list \<Rightarrow> (error + cut list) option" where
  "set_cuts rnd rb brd [] = Some (Inr [])"
| "set_cuts rnd rb brd (c # cs) =
     bind_res (make_router_passes rnd rb brd c) (\<lambda>c'.
     bind_res (set_cuts rnd rb brd cs) (\<lambda>cs'. Some (Inr (c' # cs'))))"

definition set_bottom_cuts ::
  "(rat \<Rightarrow> int) \<Rightarrow> board \<Rightarrow> cut list \<Rightarrow> router_bit \<Rightarrow> (error + board) option" where
  "set_bottom_cuts rnd brd cuts rb =
     bind_res (set_cuts rnd rb brd cuts) (\<lambda>cs. Some (Inr (brd\<lparr>bottom_cuts := Some cs\<rparr>)))"

definition set_top_cuts ::
  "(rat \<Rightarrow> int) \<Rightarrow> board \<Rightarrow> cut list \<Rightarrow> router_bit \<Rightarrow> (error + board) option" where
  "set_top_cuts rnd brd cuts rb =
     bind_res (set_cuts rnd rb brd cuts) (\<lambda>cs. Some (Inr (brd\<lparr>top_cuts := Some cs\<rparr>)))"

text \<open>
  The body shared by the two \<^verbatim>\<open>if boards[k].active\<close> blocks of
  \<^verbatim>\<open>cut_boards\<close> (\<open>k = 3\<close>, then \<open>k = 2\<close>): the top cuts of board \<open>k\<close> adjoin
  \<open>last\<close> on board 0, its bottom cuts adjoin its top cuts on board \<open>k\<close>, and they become the
  new \<open>last\<close>. The cut lists handed on are the ones whose passes have been computed, as the
  Python computes passes in place.
\<close>

definition reinforce ::
  "(rat \<Rightarrow> int) \<Rightarrow> router_bit \<Rightarrow> nat \<Rightarrow> board list \<times> cut list \<Rightarrow> (error + board list \<times> cut list) option" where
  "reinforce rnd rb k s =
     (case s of (boards, last_cuts) \<Rightarrow>
        bind_res (Some (adjoining_cuts last_cuts rb (boards ! 0))) (\<lambda>top.
        bind_res (set_top_cuts rnd (boards ! k) top rb) (\<lambda>bk.
        bind_res (Some (adjoining_cuts (the (top_cuts bk)) rb bk)) (\<lambda>last'.
        bind_res (set_bottom_cuts rnd bk last' rb) (\<lambda>bk'.
        Some (Inr (boards[k := bk'], the (bottom_cuts bk'))))))))"

text \<open>
  \<^verbatim>\<open>cut_boards\<close>; \<open>spacing_cuts\<close> is \<^verbatim>\<open>spacing.cuts\<close>. A list of fewer than
  four boards raises when \<^verbatim>\<open>boards[3]\<close> is read (an empty one at
  \<^verbatim>\<open>boards[0]\<close>).
\<close>

definition cut_boards ::
  "(rat \<Rightarrow> int) \<Rightarrow> board list \<Rightarrow> router_bit \<Rightarrow> cut list \<Rightarrow> (error + board list) option" where
  "cut_boards rnd boards rb spacing_cuts =
     (if boards = [] then Some (Inl Index_Error)
      else
        bind_res (set_bottom_cuts rnd (boards ! 0) spacing_cuts rb) (\<lambda>b0.
        bind_res (if length boards < 4 then Some (Inl Index_Error)
                  else Some (Inr (boards[0 := b0], the (bottom_cuts b0)))) (\<lambda>s0.
        bind_res (if active (fst s0 ! 3) then reinforce rnd rb 3 s0 else Some (Inr s0)) (\<lambda>s1.
        bind_res (if active (fst s1 ! 2) then reinforce rnd rb 2 s1 else Some (Inr s1)) (\<lambda>s2.
        bind_res (Some (adjoining_cuts (snd s2) rb (fst s2 ! 1))) (\<lambda>top.
        bind_res (set_top_cuts rnd (fst s2 ! 1) top rb) (\<lambda>b1.
        Some (Inr ((fst s2)[1 := b1])))))))))"

section \<open>Setters of the router bit\<close>





section \<open>Example data\<close>

text \<open>
  Units in metric mode whose parsers know a few strings, and a few values of the tangent
  (0.2493 for 14 degrees, to four places).
\<close>

definition example_units :: units where
  "example_units =
     \<lparr>metric = True, mm_per_inch = 127 / 5, num_increments = 1,
      string_to_float = (\<lambda>s. if s = ''1'' then Some 1 else if s = ''6'' then Some 6
                              else if s = ''14'' then Some 14 else if s = ''50'' then Some 50
                              else if s = ''-3'' then Some (- 3) else None),
      string_to_increments = (\<lambda>s as_integer. if s = ''20'' then Some 20 else None)\<rparr>"

definition example_tan :: "rat \<Rightarrow> rat" where
  "example_tan a = (if a = 14 then 2493 / 10000 else if a = 6 then 1051 / 10000 else a / 57)"



text \<open>A straight bit of width 24 and depth 32, and a dovetail bit of width 32, depth 24, 14 degrees.\<close>

definition straight_bit :: router_bit where
  "straight_bit = snd (Router_Bit_init example_tan example_units 24 32 0 33)"

definition dovetail_bit :: router_bit where
  "dovetail_bit = snd (Router_Bit_init example_tan example_units 32 24 14 33)"

definition example_board :: "rat \<Rightarrow> rat \<Rightarrow> board" where
  "example_board w dh =
     \<lparr>board_width = w, height = 48, wood = None, dheight = dh, active = True,
      top_cuts = None, bottom_cuts = None\<rparr>"

section \<open>Properties of the router bit\<close>

lemma round_half_down_nonneg:
  assumes "0 \<le> x"
  shows "round_half_down x = \<lceil>x - 1 / 2\<rceil>"
proof -
  define f where "f = \<lfloor>x\<rfloor>"
  have fl: "of_int f \<le> x" "x < of_int f + 1"
    unfolding f_def by linarith+
  have "\<lceil>x - 1 / 2\<rceil> =
      (if x - of_int f < 1 / 2 then f else if 1 / 2 < x - of_int f then f + 1
       else if 0 \<le> x then f else f + 1)"
    using fl assms by (intro ceiling_unique) (auto split: if_splits)
  then show ?thesis
    by (simp add: round_half_down_def Let_def f_def)
qed

lemma round_half_down_near: "\<bar>x - of_int (round_half_down x)\<bar> \<le> 1 / 2"
proof -
  define f where "f = \<lfloor>x\<rfloor>"
  have fl: "of_int f \<le> x" "x < of_int f + 1"
    unfolding f_def by linarith+
  have "\<bar>x - of_int (if x - of_int f < 1 / 2 then f else if 1 / 2 < x - of_int f then f + 1
       else if 0 \<le> x then f else f + 1)\<bar> \<le> 1 / 2"
    using fl by (auto split: if_splits)
  then show ?thesis
    unfolding round_half_down_def Let_def f_def .
qed



section \<open>Properties of the setters\<close>















section \<open>Properties of pass synthesis\<close>

lemma make_router_passes_checked:
  assumes "make_router_passes rnd rb brd c = Some (Inr c')"
  shows "validate rb brd c = None"
    and "xmin c' = xmin c" and "xmax c' = xmax c"
    and "\<forall>p \<in> set (passes c'). \<not> pass_bad rb brd c p"
    and "sorted (passes c')"
  using assms
  by (auto simp: make_router_passes_def Let_def list_ex_iff
      split: option.splits prod.splits if_splits)

lemma validate_None:
  "validate rb brd c = None \<Longrightarrow> xmin c < xmax c \<and> 0 \<le> xmin c \<and> xmax c \<le> board_width brd"
  by (auto simp: validate_def split: if_splits)

text \<open>
  C3 (as stated, refuted). On a board of width 72 the cut from 48 to the right edge gets the
  passes 60 and 77 with the straight bit of width 24: the pass 77 lies beyond the board.
\<close>

theorem pass_beyond_board_counterexample:
  "make_router_passes math_round straight_bit (example_board 72 0) (Cut 48 72) =
     Some (Inr \<lparr>xmin = 48, xmax = 72, passes = [60, 77]\<rparr>) \<and>
   board_width (example_board 72 0) < 77"
  by code_simp

text \<open>
  C3 (amended). When \<open>make_router_passes\<close> returns and half the bit width is at least the
  tolerance, every pass is at least 0 if the cut does not start at the left edge of the
  board, and at most the board width if the cut does not end at the right edge. So the
  passes of a cut that touches neither edge lie within the board.
\<close>

theorem passes_within_board:
  assumes "make_router_passes rnd rb brd c = Some (Inr c')"
    and "p \<in> set (passes c')"
    and "precision \<le> halfwidth rb"
  shows "(0 < xmin c \<longrightarrow> 0 \<le> p) \<and>
         (xmax c < board_width brd \<longrightarrow> of_int p \<le> board_width brd)"
proof -
  from make_router_passes_checked(4) [OF assms(1)] assms(2)
  have nb: "\<not> pass_bad rb brd c p" by blast
  have l: "0 \<le> p" if "0 < xmin c"
  proof -
    from nb that have "xmin c - (of_int p - halfwidth rb) \<le> precision"
      by (auto simp: pass_bad_def)
    with that assms(3) have "(0::rat) < of_int p" by linarith
    then show ?thesis by simp
  qed
  have r: "of_int p \<le> board_width brd" if "xmax c < board_width brd"
  proof -
    from nb that have "(of_int p + halfwidth rb) - xmax c \<le> precision"
      by (auto simp: pass_bad_def)
    with that assms(3) show ?thesis by linarith
  qed
  from l r show ?thesis by blast
qed

theorem passes_within_board_witness:
  "make_router_passes math_round straight_bit (example_board 240 0) (Cut 100 160) =
     Some (Inr \<lparr>xmin = 100, xmax = 160, passes = [112, 119, 126, 133, 148]\<rparr>) \<and>
   (0::int) \<le> 148 \<and> (148::rat) \<le> board_width (example_board 240 0)"
proof -
  have m: "make_router_passes math_round straight_bit (example_board 240 0) (Cut 100 160) =
     Some (Inr \<lparr>xmin = 100, xmax = 160, passes = [112, 119, 126, 133, 148]\<rparr>)"
    by code_simp
  have p: "148 \<in> set (passes \<lparr>xmin = 100, xmax = 160, passes = [112, 119, 126, 133, 148]\<rparr>)"
    by simp
  have h: "precision \<le> halfwidth straight_bit"
    by code_simp
  have e: "0 < xmin (Cut 100 160)" "xmax (Cut 100 160) < board_width (example_board 240 0)"
    by (simp_all add: Cut_def example_board_def)
  from passes_within_board [OF m p h] e m show ?thesis by simp
qed

text \<open>
  C4 (as stated, refuted). For the cut from 48 to the right edge of a board of width 72 and
  the straight bit of width 24 (half width 12, sub-pass 7) the seed is 77, which is
  \<open>xmax + (halfwidth - sub)\<close>; the claim's \<open>xmax - (halfwidth - sub)\<close> is 67.
\<close>

theorem seed_p0_counterexample:
  "seed_p0 math_round straight_bit (example_board 72 0) (Cut 48 72) = 77 \<and>
   xmax (Cut 48 72) - (halfwidth straight_bit - of_int (cutpass straight_bit)) = 67"
  by code_simp

text \<open>
  C4 (amended). When the cut ends at the right edge of the board and is wider than half the
  bit width, the seed is \<open>xmax + (halfwidth - sub)\<close>: it lies outward of \<open>xmax\<close> as long as
  \<open>sub \<le> halfwidth\<close>, and the left edge of the bit is at \<open>xmax - sub\<close>. Here \<open>sub\<close> is
  \<open>int (width * gentleness / 100)\<close>, the floor when the product is not negative. In every
  other case the seed is the rounding of \<open>xmax - halfwidth\<close>.
\<close>

theorem seed_p0_cases:
  "(xmax c = board_width brd \<and> halfwidth rb < xmax c - xmin c \<longrightarrow>
      seed_p0 rnd rb brd c = xmax c + (halfwidth rb - of_int (cutpass rb)) \<and>
      seed_p0 rnd rb brd c - halfwidth rb = xmax c - of_int (cutpass rb) \<and>
      (of_int (cutpass rb) \<le> halfwidth rb \<longrightarrow> xmax c \<le> seed_p0 rnd rb brd c)) \<and>
   (\<not> (xmax c = board_width brd \<and> halfwidth rb < xmax c - xmin c) \<longrightarrow>
      seed_p0 rnd rb brd c = of_int (rnd (xmax c - halfwidth rb))) \<and>
   (0 \<le> width_f rb * bit_gentle rb \<longrightarrow> cutpass rb = \<lfloor>width_f rb * bit_gentle rb / 100\<rfloor>)"
  by (auto simp: seed_p0_def cutpass_def py_int_def)

theorem seed_p0_cases_witness:
  "seed_p0 math_round straight_bit (example_board 72 0) (Cut 48 72) =
     xmax (Cut 48 72) + (halfwidth straight_bit - of_int (cutpass straight_bit)) \<and>
   seed_p0 math_round straight_bit (example_board 240 0) (Cut 108 132) =
     of_int (math_round (xmax (Cut 108 132) - halfwidth straight_bit)) \<and>
   cutpass straight_bit = \<lfloor>width_f straight_bit * bit_gentle straight_bit / 100\<rfloor>"
proof -
  have a: "xmax (Cut 48 72) = board_width (example_board 72 0) \<and>
           halfwidth straight_bit < xmax (Cut 48 72) - xmin (Cut 48 72)"
    by code_simp
  have b: "\<not> (xmax (Cut 108 132) = board_width (example_board 240 0) \<and>
           halfwidth straight_bit < xmax (Cut 108 132) - xmin (Cut 108 132))"
    by code_simp
  have c: "0 \<le> width_f straight_bit * bit_gentle straight_bit"
    by code_simp
  from seed_p0_cases [of "Cut 48 72" "example_board 72 0" straight_bit math_round] a
    seed_p0_cases [of "Cut 108 132" "example_board 240 0" straight_bit math_round] b c
  show ?thesis by blast
qed




section \<open>Properties of the edge cut propagation\<close>

lemma round_half_even_near: "\<bar>of_int (round_half_even y) - y\<bar> \<le> 1 / 2"
proof -
  define f where "f = \<lfloor>y\<rfloor>"
  have fl: "of_int f \<le> y" "y < of_int f + 1"
    unfolding f_def by linarith+
  have "\<bar>of_int (if y - of_int f < 1 / 2 then f else if 1 / 2 < y - of_int f then f + 1
       else if even f then f else f + 1) - y\<bar> \<le> 1 / 2"
    using fl by (auto split: if_splits)
  then show ?thesis
    unfolding round_half_even_def Let_def f_def .
qed

lemma round_half_even_int: "round_half_even (of_int n) = n"
  by (simp add: round_half_even_def Let_def)

lemma quantize4_near: "\<bar>quantize4 x - x\<bar> \<le> 1 / 20000"
proof -
  have "\<bar>of_int (round_half_even (x * 10000)) - x * 10000\<bar> \<le> 1 / 2"
    by (rule round_half_even_near)
  then have "\<bar>(of_int (round_half_even (x * 10000)) - x * 10000) / 10000\<bar> \<le> (1 / 2) / 10000"
    by (simp only: abs_divide abs_numeral divide_le_cancel) simp
  then show ?thesis
    by (simp add: quantize4_def diff_divide_distrib)
qed

lemma quantize4_grid: "x * 10000 = of_int n \<Longrightarrow> quantize4 x = x"
  by (simp add: quantize4_def round_half_even_int)

lemma upt_1_2: "[1..<2] = [Suc 0]"
  by (simp add: upt_rec)

lemma adjoining_single:
  assumes "0 < xmin c" "xmax c < board_width brd"
    and "dheight brd \<le> xmin c + (width_f rb - midline rb) - dheight brd"
    and "dheight brd \<le> board_width brd - (xmax c - (width_f rb - midline rb) + dheight brd)"
    and "0 \<le> xmax c - (width_f rb - midline rb) + dheight brd"
  shows "adjoining_cuts [c] rb brd =
           Inr [Cut 0 (quantize4 (xmin c + (width_f rb - midline rb) - dheight brd)),
                Cut (xmax c - (width_f rb - midline rb) + dheight brd) (board_width brd)]"
  using assms by (simp add: adjoining_cuts_def Let_def max_def)

lemma adjoining_pair:
  assumes "0 \<le> l"
  shows "adjoining_cuts [Cut 0 a, Cut l (board_width brd)] rb brd =
           Inr [Cut (max 0 (a - (width_f rb - midline rb) + dheight brd))
                    (min (board_width brd) (l + (width_f rb - midline rb) - dheight brd))]"
  using assms by (simp add: adjoining_cuts_def Let_def Cut_def upt_1_2)

text \<open>
  C6 (as stated, refuted). On a board of width 240 whose \<open>dheight\<close> is 4, with the straight
  bit (for which \<open>width - midline\<close> is 0), the cut from 5 to 29 lies strictly inside the
  board. Its adjoining cuts are only the cut from 33 to 240, because the candidate at the
  left edge is narrower than \<open>dheight\<close> and is dropped; the adjoining cuts of that are the
  single cut from 0 to 29, whose \<open>xmin\<close> differs from 5 by 5, more than \<open>2 * (width - midline) = 0\<close>.
\<close>

theorem adjoining_twice_counterexample:
  "adjoining_cuts [Cut 5 29] straight_bit (example_board 240 4) = Inr [Cut 33 240] \<and>
   adjoining_cuts [Cut 33 240] straight_bit (example_board 240 4) = Inr [Cut 0 29] \<and>
   2 * (width_f straight_bit - midline straight_bit) < \<bar>xmin (Cut 0 29) - xmin (Cut 5 29)\<bar>"
  by code_simp

text \<open>
  C6 (amended). Let \<open>offset = width - midline\<close>. For a single cut with \<open>0 < xmin\<close> and
  \<open>xmax < board width\<close>, when neither edge candidate of the first application is dropped
  (\<open>dheight \<le> xmin + offset - dheight\<close> and \<open>dheight \<le> board width - (xmax - offset + dheight)\<close>)
  and the right candidate starts within the board (\<open>0 \<le> xmax - offset + dheight\<close>), applying
  \<open>adjoining_cuts\<close> twice yields exactly one cut. Its \<open>xmax\<close> is that of the cut, and its
  \<open>xmin\<close> is \<open>max 0 (q - offset + dheight)\<close> where \<open>q\<close> is \<open>xmin + offset - dheight\<close>
  rounded to four decimal places, so it differs from that of the cut by at most 0.00005:
  the bound is the one of the rounding, not \<open>2 * offset\<close>.
\<close>

theorem adjoining_twice:
  assumes "0 < xmin c" and "xmax c < board_width brd"
    and "dheight brd \<le> xmin c + (width_f rb - midline rb) - dheight brd"
    and "dheight brd \<le> board_width brd - (xmax c - (width_f rb - midline rb) + dheight brd)"
    and "0 \<le> xmax c - (width_f rb - midline rb) + dheight brd"
  shows "\<exists>a c'. adjoining_cuts [c] rb brd = Inr a \<and> adjoining_cuts a rb brd = Inr [c'] \<and>
           xmax c' = xmax c \<and>
           xmin c' = max 0 (quantize4 (xmin c + (width_f rb - midline rb) - dheight brd)
                            - (width_f rb - midline rb) + dheight brd) \<and>
           \<bar>xmin c' - xmin c\<bar> \<le> 1 / 20000"
proof -
  define off where "off = width_f rb - midline rb"
  define q where "q = quantize4 (xmin c + off - dheight brd)"
  define l where "l = xmax c - off + dheight brd"
  define c' where "c' = Cut (max 0 (q - off + dheight brd)) (min (board_width brd) (l + off - dheight brd))"
  have 1: "adjoining_cuts [c] rb brd = Inr [Cut 0 q, Cut l (board_width brd)]"
    unfolding q_def l_def off_def by (rule adjoining_single [OF assms])
  have "0 \<le> l"
    using assms(5) by (simp add: l_def off_def)
  then have 2: "adjoining_cuts [Cut 0 q, Cut l (board_width brd)] rb brd = Inr [c']"
    unfolding c'_def off_def by (rule adjoining_pair)
  have 3: "xmax c' = xmax c"
    using assms(2) by (simp add: c'_def Cut_def l_def)
  have 4: "xmin c' = max 0 (q - off + dheight brd)"
    by (simp add: c'_def Cut_def)
  have "\<bar>q - (xmin c + off - dheight brd)\<bar> \<le> 1 / 20000"
    unfolding q_def by (rule quantize4_near)
  with assms(1) have 5: "\<bar>xmin c' - xmin c\<bar> \<le> 1 / 20000"
    unfolding 4 by (auto simp: max_def abs_if split: if_splits)
  from 1 2 3 4 5 show ?thesis
    unfolding q_def off_def by blast
qed

theorem adjoining_twice_witness:
  "\<exists>a c'. adjoining_cuts [Cut 108 132] dovetail_bit (example_board 240 0) = Inr a \<and>
     adjoining_cuts a dovetail_bit (example_board 240 0) = Inr [c'] \<and>
     xmax c' = xmax (Cut 108 132) \<and> \<bar>xmin c' - xmin (Cut 108 132)\<bar> \<le> 1 / 20000"
proof -
  have h: "0 < xmin (Cut 108 132)"
    "xmax (Cut 108 132) < board_width (example_board 240 0)"
    "dheight (example_board 240 0) \<le> xmin (Cut 108 132) + (width_f dovetail_bit - midline dovetail_bit) - dheight (example_board 240 0)"
    "dheight (example_board 240 0) \<le> board_width (example_board 240 0) - (xmax (Cut 108 132) - (width_f dovetail_bit - midline dovetail_bit) + dheight (example_board 240 0))"
    "0 \<le> xmax (Cut 108 132) - (width_f dovetail_bit - midline dovetail_bit) + dheight (example_board 240 0)"
    by code_simp+
  from adjoining_twice [OF h] show ?thesis by blast
qed

end
